theory Spec2Isabelle
  imports Main "HOL-Library.Sublist"
begin

section \<open>Python strings\<close>

text \<open>
  A Python \<open>str\<close> is modelled as a \<open>string\<close> whose characters are the code points
  below 256. The character classes below are the ones Python uses on that range:
  \<open>str.isspace\<close> (which \<open>str.split()\<close> without argument splits on), \<open>str.isdigit\<close>
  and \<open>str.lower\<close>.
\<close>

definition py_isspace :: "char \<Rightarrow> bool" where
  "py_isspace c =
     (let n = (of_char c :: nat)
      in (9 \<le> n \<and> n \<le> 13) \<or> (28 \<le> n \<and> n \<le> 32) \<or> n = 133 \<or> n = 160)"

definition py_isdigit :: "char \<Rightarrow> bool" where
  "py_isdigit c =
     (let n = (of_char c :: nat)
      in (48 \<le> n \<and> n \<le> 57) \<or> n = 178 \<or> n = 179 \<or> n = 185)"

definition lower_char :: "char \<Rightarrow> char" where
  "lower_char c =
     (let n = (of_char c :: nat)
      in if (65 \<le> n \<and> n \<le> 90) \<or> (192 \<le> n \<and> n \<le> 222 \<and> n \<noteq> 215)
         then Char (digit0 c) (digit1 c) (digit2 c) (digit3 c) (digit4 c) True
                (digit6 c) (digit7 c)
         else c)"

definition py_lower :: "string \<Rightarrow> string" where
  "py_lower s = map lower_char s"

text \<open>\<open>s.split()\<close>: maximal runs of non-whitespace characters, in order.\<close>

fun py_split_aux :: "string \<Rightarrow> string \<Rightarrow> string list" where
  "py_split_aux cur [] = (if cur = [] then [] else [cur])"
| "py_split_aux cur (c # cs) =
     (if py_isspace c
      then (if cur = [] then py_split_aux [] cs else cur # py_split_aux [] cs)
      else py_split_aux (cur @ [c]) cs)"

definition py_split :: "string \<Rightarrow> string list" where
  "py_split s = py_split_aux [] s"

text \<open>\<open>s.split(' ')\<close>: split at every single space; empty fields are kept.\<close>

fun split_sp_aux :: "string \<Rightarrow> string \<Rightarrow> string list" where
  "split_sp_aux cur [] = [cur]"
| "split_sp_aux cur (c # cs) =
     (if c = CHR '' '' then cur # split_sp_aux [] cs else split_sp_aux (cur @ [c]) cs)"

definition split_sp :: "string \<Rightarrow> string list" where
  "split_sp s = split_sp_aux [] s"

definition startswith :: "string \<Rightarrow> string \<Rightarrow> bool" where
  "startswith s p = (take (length p) s = p)"

text \<open>
  \<open>int(s)\<close> on a string that passed \<open>isdigit\<close>: the conversion succeeds exactly when
  every character is one of \<open>0\<close> .. \<open>9\<close>; on the superscript digits, which \<open>isdigit\<close>
  accepts, it raises \<open>ValueError\<close> (\<open>None\<close> here). The conversion is taken without
  a limit on the number of digits.
\<close>

definition dec_val :: "char \<Rightarrow> int option" where
  "dec_val c =
     (let n = (of_char c :: nat)
      in if 48 \<le> n \<and> n \<le> 57 then Some (int n - 48) else None)"

fun py_int_aux :: "int \<Rightarrow> string \<Rightarrow> int option" where
  "py_int_aux acc [] = Some acc"
| "py_int_aux acc (c # cs) =
     (case dec_val c of None \<Rightarrow> None | Some d \<Rightarrow> py_int_aux (10 * acc + d) cs)"

definition py_int :: "string \<Rightarrow> int option" where
  "py_int s = (if s = [] then None else py_int_aux 0 s)"

text \<open>
  \<open>int(s, 16)\<close> on a string of hexadecimal digits of either case (the only strings the
  program passes: a parameter that matched no character outside \<open>[0-9a-f]\<close>, and the
  bounds of the command table). Any other character is \<open>ValueError\<close> (\<open>None\<close>).
\<close>

definition hex_val :: "char \<Rightarrow> int option" where
  "hex_val c =
     (let n = (of_char c :: nat)
      in if 48 \<le> n \<and> n \<le> 57 then Some (int n - 48)
         else if 97 \<le> n \<and> n \<le> 102 then Some (int n - 87)
         else if 65 \<le> n \<and> n \<le> 70 then Some (int n - 55)
         else None)"

fun py_int16_aux :: "int \<Rightarrow> string \<Rightarrow> int option" where
  "py_int16_aux acc [] = Some acc"
| "py_int16_aux acc (c # cs) =
     (case hex_val c of None \<Rightarrow> None | Some d \<Rightarrow> py_int16_aux (16 * acc + d) cs)"

definition py_int16 :: "string \<Rightarrow> int option" where
  "py_int16 s = (if s = [] then None else py_int16_aux 0 s)"

text \<open>The pattern \<open>[^0-9a-f]\<close> finds a match iff some character is outside the class.\<close>

definition is_lower_hex :: "char \<Rightarrow> bool" where
  "is_lower_hex c =
     (let n = (of_char c :: nat) in (48 \<le> n \<and> n \<le> 57) \<or> (97 \<le> n \<and> n \<le> 102))"

definition pattern_search :: "string \<Rightarrow> bool" where
  "pattern_search s = (\<not> list_all is_lower_hex s)"

section \<open>Device constants (class \<open>rn2903\<close>)\<close>

text \<open>
  An entry of a \<open>user_input\<close> list is a dictionary \<open>{'type': t, 'range': r}\<close> with
  \<open>t\<close> one of \<open>'int'\<close>, \<open>'hex'\<close>, \<open>'set'\<close>. Every entry of the table has both keys and
  a non-empty list as range, so the checks of \<open>check_param\<close> on the shape of the
  definition always pass; the three kinds are the constructors of \<open>param_def\<close>.
\<close>

datatype param_def =
    IntP int int
  | HexP string string
  | SetP "string list"

text \<open>
  A node of the nested dictionary \<open>commands\<close>: the value under the key
  \<open>'user_input'\<close> when the key is present, and the remaining keys (the sub-commands)
  in insertion order.
\<close>

datatype cmd_node =
  CmdNode (user_input: "param_def list option") (children: "(string \<times> cmd_node) list")

definition leaf :: cmd_node where
  "leaf = CmdNode None []"

definition inputs :: "param_def list \<Rightarrow> cmd_node" where
  "inputs ps = CmdNode (Some ps) []"

definition branch :: "(string \<times> cmd_node) list \<Rightarrow> cmd_node" where
  "branch cs = CmdNode None cs"

text \<open>Truth value of a dictionary: it has a key.\<close>

definition truthy :: "cmd_node \<Rightarrow> bool" where
  "truthy n = (user_input n \<noteq> None \<or> children n \<noteq> [])"

definition firmware_name :: string where
  "firmware_name = ''RN2903''"

definition data_termintaor :: string where
  "data_termintaor = [CHR 0x0D, CHR 0x0A]"

definition nvm_adr_range :: "string \<times> string" where
  "nvm_adr_range = (''300'', ''3FF'')"

definition dpin_names :: "string list" where
  "dpin_names = [''GPIO0'', ''GPIO1'', ''GPIO2'', ''GPIO3'', ''GPIO4'', ''GPIO5'', ''GPIO6'',
     ''GPIO7'', ''GPIO8'', ''GPIO9'', ''GPIO10'', ''GPIO11'', ''GPIO12'', ''GPIO13'',
     ''UART_CTS'', ''UART_RTS'', ''TEST0'', ''TEST1'']"

definition apin_names :: "string list" where
  "apin_names = [''GPIO0'', ''GPIO1'', ''GPIO2'', ''GPIO3'', ''GPIO5'', ''GPIO6'', ''GPIO7'',
     ''GPIO8'', ''GPIO9'', ''GPIO10'', ''GPIO11'', ''GPIO12'', ''GPIO13'']"

definition pin_modes :: "string list" where
  "pin_modes = [''digout'', ''digin'', ''ana'']"

text \<open>The message size limit: 240 times the digit \<open>F\<close>.\<close>

definition max_tx_msg :: string where
  "max_tx_msg = replicate 240 (CHR ''F'')"

definition auto_freq_band :: "string list" where
  "auto_freq_band = [''250'', ''125'', ''62.5'', ''31.3'', ''15.6'', ''7.8'', ''3.9'', ''200'',
     ''100'', ''50'', ''25'', ''12.5'', ''6.3'', ''3.1'', ''166.7'', ''83.3'', ''41.7'', ''20.8'',
     ''10.4'', ''5.2'', ''2.6'']"

definition gfsk_modulation_bt :: "string list" where
  "gfsk_modulation_bt = [''none'', ''1.0'', ''0.5'', ''0.3'']"

definition rx_bandwidth :: "string list" where
  "rx_bandwidth = [''250'', ''125'', ''62.5'', ''31.3'', ''15.6'', ''7.8'', ''3.9'', ''200'',
     ''100'', ''50'', ''25'', ''12.5'', ''6.3'', ''3.1'', ''166.7'', ''83.3'', ''41.7'', ''20.8'',
     ''10.4'', ''5.2'', ''2.6'']"

definition spread_factors :: "string list" where
  "spread_factors = [''sf7'', ''sf8'', ''sf9'', ''sf10'', ''sf11'', ''sf12'']"

definition sys_commands :: cmd_node where
  "sys_commands = branch
     [(''sleep'', inputs [IntP 100 4294967296]),
      (''reset'', leaf),
      (''eraseFW'', leaf),
      (''factoryRESET'', leaf),
      (''set'', branch
         [(''nvm'', inputs [HexP (fst nvm_adr_range) (snd nvm_adr_range), HexP ''00'' ''FF'']),
          (''pindig'', inputs [SetP dpin_names, IntP 0 1]),
          (''pinmode'', inputs [SetP dpin_names, SetP pin_modes])]),
      (''get'', branch
         [(''ver'', leaf),
          (''nvm'', inputs [HexP (fst nvm_adr_range) (snd nvm_adr_range)]),
          (''vdd'', leaf),
          (''hweui'', leaf),
          (''pindig'', inputs [SetP dpin_names]),
          (''pinana'', inputs [SetP apin_names])])]"

definition mac_get_ch :: cmd_node where
  "mac_get_ch = branch
     [(''freq'', inputs [IntP 0 71]),
      (''drrange'', inputs [IntP 0 71]),
      (''status'', inputs [IntP 0 71])]"

definition mac_commands :: cmd_node where
  "mac_commands = branch
     [(''reset'', leaf),
      (''pause'', leaf),
      (''resume'', leaf),
      (''save'', leaf),
      (''get'', branch
         [(''adr'', leaf),
          (''appeui'', leaf),
          (''ar'', leaf),
          (''ch'', mac_get_ch),
          (''class'', leaf),
          (''dcycleps'', leaf),
          (''devaddr'', leaf),
          (''deveui'', leaf),
          (''dnctr'', leaf),
          (''dr'', leaf),
          (''gwnb'', leaf),
          (''mcast'', leaf),
          (''mcastdevaddr'', leaf),
          (''mcastdnctr'', leaf),
          (''mrgn'', leaf),
          (''pwridx'', leaf),
          (''retx'', leaf),
          (''rx2'', leaf),
          (''rxdelay1'', leaf),
          (''rxdelay2'', leaf),
          (''status'', leaf),
          (''sync'', leaf),
          (''upctr'', leaf)])]"

definition radio_commands :: cmd_node where
  "radio_commands = branch
     [(''rx'', inputs [IntP 0 65535]),
      (''tx'', inputs [HexP ''0'' max_tx_msg]),
      (''cw'', leaf),
      (''rxstop'', leaf),
      (''set'', branch
         [(''afcbw'', inputs [SetP auto_freq_band]),
          (''bitrate'', inputs [IntP 1 300000]),
          (''bt'', inputs [SetP gfsk_modulation_bt]),
          (''bw'', inputs [SetP [''125'', ''250'', ''500'']]),
          (''cr'', inputs [SetP [''4/5'', ''4/6'', ''4/7'', ''4/8'']]),
          (''crc'', inputs [SetP [''on'', ''off'']]),
          (''fdev'', inputs [IntP 0 200000]),
          (''freq'', inputs [IntP 902000000 928000000]),
          (''iqi'', inputs [SetP [''on'', ''off'']]),
          (''mod'', inputs [SetP [''lora'', ''fsk'']]),
          (''prlen'', inputs [IntP 0 65535]),
          (''pwr'', inputs [IntP 2 20]),
          (''rxbw'', inputs [SetP rx_bandwidth]),
          (''sf'', inputs [SetP spread_factors]),
          (''sync'', inputs [HexP ''0'' ''FFFFFFFFFFFFFFFF'']),
          (''wdt'', inputs [IntP 0 4294967295])]),
      (''get'', branch
         [(''afcbw'', leaf),
          (''bitrate'', leaf),
          (''bt'', leaf),
          (''bw'', leaf),
          (''cr'', leaf),
          (''crc'', leaf),
          (''fdev'', leaf),
          (''freq'', leaf),
          (''iqi'', leaf),
          (''mod'', leaf),
          (''prlen'', leaf),
          (''pwr'', leaf),
          (''rssi'', leaf),
          (''rxbw'', leaf),
          (''sf'', leaf),
          (''snr'', leaf),
          (''sync'', leaf),
          (''wdt'', leaf)])]"

definition commands :: "(string \<times> cmd_node) list" where
  "commands = [(''sys'', sys_commands), (''mac'', mac_commands), (''radio'', radio_commands)]"

section \<open>Exceptions\<close>

text \<open>
  A call either returns a value (\<open>Inr\<close>) or leaves through an exception that the
  program does not catch (\<open>Inl\<close>).
\<close>

datatype py_exn = IndexError | KeyError | TypeError | ValueError

section \<open>\<open>check_param\<close>\<close>

text \<open>
  The parameter is rejected when it is empty. For \<open>'int'\<close> it must pass
  \<open>isdigit\<close> and lie within the bounds; for \<open>'hex'\<close> its lower-cased form must have
  no character outside \<open>[0-9a-f]\<close> and its value must lie within the bounds read in
  base 16; for \<open>'set'\<close> it must be an element of the list. Every exception raised
  inside a check is caught there and gives \<open>False\<close>.
\<close>

fun check_param :: "string \<Rightarrow> param_def \<Rightarrow> bool" where
  "check_param ps_param (IntP lo hi) =
     (if ps_param = [] then False
      else if \<not> list_all py_isdigit ps_param then False
      else (case py_int ps_param of
              None \<Rightarrow> False
            | Some v \<Rightarrow> if v < lo then False else if v > hi then False else True))"
| "check_param ps_param (HexP lo hi) =
     (if ps_param = [] then False
      else let param = py_lower ps_param
           in if pattern_search param then False
              else (case (py_int16 param, py_int16 lo, py_int16 hi) of
                      (Some pval, Some rmin, Some rmax) \<Rightarrow>
                        if pval < rmin then False else if pval > rmax then False else True
                    | _ \<Rightarrow> False))"
| "check_param ps_param (SetP rng) =
     (if ps_param = [] then False
      else if ps_param \<notin> set rng then False else True)"

section \<open>\<open>validate_command\<close>\<close>

text \<open>
  \<open>cmd_par cmd_set i\<close> is the token at index \<open>i\<close> when there is one and the empty
  string otherwise, as \<open>cmd_par1\<close>, \<open>cmd_par2\<close> and \<open>cmd_par3\<close> are set.
\<close>

definition cmd_par :: "string list \<Rightarrow> nat \<Rightarrow> string" where
  "cmd_par cmd_set i = (if length cmd_set > i then cmd_set ! i else [])"

text \<open>
  The check of one \<open>user_input\<close> list against a first and a second token, appending
  the accepted tokens to \<open>send_str\<close>: the first entry always, the second when the list
  has exactly two entries. \<open>Inr None\<close> is the return value \<open>False\<close>.
\<close>

definition check_inputs ::
  "param_def list \<Rightarrow> string \<Rightarrow> string \<Rightarrow> string \<Rightarrow> py_exn + string option" where
  "check_inputs ui send_str p q =
     (case ui of
        [] \<Rightarrow> Inl IndexError
      | d0 # ds \<Rightarrow>
          if check_param p d0
          then (let send_str1 = send_str @ '' '' @ p
                in if length ui = 2
                   then (if check_param q (ui ! 1)
                         then Inr (Some (send_str1 @ '' '' @ q))
                         else Inr None)
                   else Inr (Some send_str1))
          else Inr None)"

text \<open>
  The checks of \<open>validate_command\<close> against \<open>commands\<close> (from "check command
  type" to the final \<open>return send_str\<close>), as a function of the five variables
  \<open>cmd_type\<close>, \<open>cmd_base\<close>, \<open>cmd_par1\<close>, \<open>cmd_par2\<close>, \<open>cmd_par3\<close> that they read.
\<close>

definition validate_pars ::
  "string \<Rightarrow> string \<Rightarrow> string \<Rightarrow> string \<Rightarrow> string \<Rightarrow> py_exn + string option" where
  "validate_pars cmd_type cmd_base cmd_par1 cmd_par2 cmd_par3 =
       (case map_of commands cmd_type of
             None \<Rightarrow> Inr None
           | Some tnode \<Rightarrow>
              (case map_of (children tnode) cmd_base of
                 None \<Rightarrow> Inr None
               | Some bnode \<Rightarrow>
                  (let send_str = cmd_type @ '' '' @ cmd_base
                   in if \<not> truthy bnode then Inr (Some send_str)
                      else case user_input bnode of
                        Some ui \<Rightarrow> check_inputs ui send_str cmd_par1 cmd_par2
                      | None \<Rightarrow>
                         (case map_of (children bnode) cmd_par1 of
                            None \<Rightarrow> Inr None
                          | Some snode \<Rightarrow>
                             (let send_str1 = send_str @ '' '' @ cmd_par1
                              in if \<not> truthy snode then Inr (Some send_str1)
                                 else case user_input snode of
                                   Some ui \<Rightarrow> check_inputs ui send_str1 cmd_par2 cmd_par3
                                 | None \<Rightarrow>
                                    (case map_of (children snode) cmd_par2 of
                                       None \<Rightarrow> Inr (Some send_str1)
                                     | Some fnode \<Rightarrow>
                                        (case user_input fnode of
                                           None \<Rightarrow> Inr (Some send_str1)
                                         | Some ui4 \<Rightarrow>
                                            (case ui4 of
                                               [] \<Rightarrow> Inl IndexError
                                             | d0 # ds \<Rightarrow>
                                                 if check_param cmd_par3 d0
                                                 then Inr (Some (send_str1 @ '' '' @ cmd_par3))
                                                 else Inr (Some send_str1)))))))))"

text \<open>
  The part of \<open>validate_command\<close> after \<open>cmd_set = cmd.split()\<close>: the five
  variables are set from the tokens. Reading \<open>cmd_set[0]\<close> or \<open>cmd_set[1]\<close> of a
  shorter list raises \<open>IndexError\<close>.
\<close>

definition validate_cmd_set :: "string list \<Rightarrow> py_exn + string option" where
  "validate_cmd_set cmd_set =
     (if length cmd_set < 2 then Inl IndexError
      else
        let cmd_type = py_lower (cmd_set ! 0);
            cmd_base = cmd_set ! 1;
            cmd_par1 = cmd_par cmd_set 2;
            cmd_par2 = cmd_par cmd_set 3;
            cmd_par3 = cmd_par cmd_set 4
        in validate_pars cmd_type cmd_base cmd_par1 cmd_par2 cmd_par3)"

text \<open>
  \<open>validate_command\<close>: a command without a space character is rejected; otherwise
  it is split at whitespace and the tokens are checked against \<open>commands\<close>.
\<close>

definition validate_command :: "string \<Rightarrow> py_exn + string option" where
  "validate_command ps_cmd =
     (if CHR '' '' \<notin> set ps_cmd then Inr None
      else validate_cmd_set (py_split ps_cmd))"

section \<open>The serial port\<close>

text \<open>
  The serial device is an external collaborator. It is modelled by what the program
  can observe of it: the data of every write that went through, in order; the
  outcomes of the coming calls of \<open>write\<close> (\<open>True\<close>: the call raises; once the list is
  used up every write goes through); and the results of the coming calls of
  \<open>read()\<close>, each one byte, a timeout (the empty byte string) or an exception (once
  the list is used up every read times out). Every call of \<open>write\<close> changes the
  port: it either extends \<open>written\<close> or consumes an entry of \<open>wr_script\<close>.
\<close>

datatype rd_event = RdByte char | RdTimeout | RdError

record port =
  written :: "string list"
  wr_script :: "bool list"
  rd_script :: "rd_event list"

definition serial_write :: "port \<Rightarrow> string \<Rightarrow> bool \<times> port" where
  "serial_write p data =
     (case wr_script p of
        [] \<Rightarrow> (True, p\<lparr>written := written p @ [data]\<rparr>)
      | raises # rest \<Rightarrow>
          if raises then (False, p\<lparr>wr_script := rest\<rparr>)
          else (True, p\<lparr>written := written p @ [data], wr_script := rest\<rparr>))"

definition serial_read :: "port \<Rightarrow> rd_event \<times> port" where
  "serial_read p =
     (case rd_script p of
        [] \<Rightarrow> (RdTimeout, p)
      | e # rest \<Rightarrow> (e, p\<lparr>rd_script := rest\<rparr>))"

section \<open>The device object\<close>

text \<open>
  The fields of the object that the methods read: the port, the status, the safe
  mode and the configuration. The calls of \<open>logging\<close> and \<open>print\<close> have no effect on
  them and are left out.
\<close>

text \<open>A value that is either \<open>False\<close> or a string, as the results of the methods are.\<close>

datatype pyval = PFalse | PStr string

record config =
  cfg_sys :: "(string \<times> pyval) list"
  cfg_mac :: "(string \<times> pyval) list"
  cfg_radio :: "(string \<times> pyval) list"

record session =
  dev_object :: port
  dev_status :: string
  safe_mode :: string
  device_config :: config

text \<open>The configuration that \<open>__init__\<close> sets before it opens the port.\<close>

definition default_config :: config where
  "default_config =
     \<lparr>cfg_sys = [(''ver'', PStr []), (''nvm'', PStr []), (''hweui'', PStr [])],
      cfg_mac =
        [(''adr'', PStr ''off''), (''appeui'', PStr ''0000000000000000''), (''ar'', PStr ''off''),
         (''class'', PStr ''A''), (''dcycleps'', PStr ''1''), (''devaddr'', PStr ''00000000''),
         (''deveui'', PStr ''0000000000000000''), (''dnctr'', PStr ''0''), (''dr'', PStr ''XXX''),
         (''gwnb'', PStr ''0''), (''mcast'', PStr ''off''), (''mcastdevaddr'', PStr ''00000000''),
         (''mcastdnctr'', PStr ''0''), (''mrgn'', PStr ''255''), (''pwridx'', PStr ''5''),
         (''retx'', PStr ''7''), (''rx2'', PStr ''8 923300000''), (''rxdelay1'', PStr ''1000''),
         (''rxdelay2'', PStr ''2000''), (''status'', PStr ''00000100''), (''sync'', PStr ''34''),
         (''upctr'', PStr ''0'')],
      cfg_radio =
        [(''afcbw'', PStr ''41.7''), (''bitrate'', PStr ''50000''), (''bt'', PStr ''0.5''),
         (''bw'', PStr ''125''), (''cr'', PStr ''4/5''), (''crc'', PStr ''on''),
         (''fdev'', PStr ''25000''), (''freq'', PStr ''923300000''), (''iqi'', PStr ''off''),
         (''mod'', PStr ''lora''), (''prlen'', PStr ''8''), (''pwr'', PStr ''2''),
         (''rxbw'', PStr ''25''), (''sf'', PStr ''sf12''), (''sync'', PStr ''34''),
         (''wdt'', PStr ''15000'')]\<rparr>"

text \<open>
  The object as \<open>__init__\<close> leaves it once the port is open: status \<open>'idle'\<close>, safe
  mode \<open>'on'\<close>; and the same object in the status \<open>'error'\<close>.
\<close>

definition idle_session :: "port \<Rightarrow> config \<Rightarrow> session" where
  "idle_session p c =
     \<lparr>dev_object = p, dev_status = ''idle'', safe_mode = ''on'', device_config = c\<rparr>"

definition error_session :: "port \<Rightarrow> config \<Rightarrow> session" where
  "error_session p c =
     \<lparr>dev_object = p, dev_status = ''error'', safe_mode = ''on'', device_config = c\<rparr>"

text \<open>A port on which nothing was written yet and that will deliver the given lines.\<close>

definition line_bytes :: "string \<Rightarrow> rd_event list" where
  "line_bytes l = map RdByte (l @ data_termintaor)"

definition fresh_port :: "string list \<Rightarrow> port" where
  "fresh_port ls = \<lparr>written = [], wr_script = [], rd_script = concat (map line_bytes ls)\<rparr>"

section \<open>\<open>write_command\<close> and \<open>read_response\<close>\<close>

definition write_command :: "session \<Rightarrow> string \<Rightarrow> bool \<times> session" where
  "write_command s cmd_str =
     (if cmd_str = [] then (False, s)
      else let (done, p) = serial_write (dev_object s) (cmd_str @ data_termintaor)
           in (done, s\<lparr>dev_object := p\<rparr>))"

text \<open>
  The reader loop: at most 256 calls of \<open>read()\<close>; it ends at a line feed. A read
  that raises, and a byte that is not the UTF-8 encoding of a character (128 and
  above), end the method with \<open>False\<close> (\<open>None\<close> here).
\<close>

function read_loop :: "nat \<Rightarrow> string \<Rightarrow> port \<Rightarrow> string option \<times> port" where
  "read_loop count resp p =
     (if count < 256
      then (case serial_read p of
              (RdError, p1) \<Rightarrow> (None, p1)
            | (RdTimeout, p1) \<Rightarrow> read_loop (count + 1) resp p1
            | (RdByte c, p1) \<Rightarrow>
                if (of_char c :: nat) \<ge> 128 then (None, p1)
                else if c = CHR 0x0A then (Some (resp @ [c]), p1)
                else read_loop (count + 1) (resp @ [c]) p1)
      else (Some resp, p))"
  by pat_completeness auto
termination
  by (relation "measure (\<lambda>(count, resp, p). 256 - count)") auto

declare read_loop.simps [simp del]

text \<open>\<open>resp.replace(data_termintaor, '')\<close>: every carriage return + line feed is removed.\<close>

fun strip_terminator :: "string \<Rightarrow> string" where
  "strip_terminator (a # b # cs) =
     (if a = CHR 0x0D \<and> b = CHR 0x0A then strip_terminator cs
      else a # strip_terminator (b # cs))"
| "strip_terminator cs = cs"

definition read_response :: "session \<Rightarrow> pyval \<times> session" where
  "read_response s =
     (case read_loop 0 [] (dev_object s) of
        (None, p) \<Rightarrow> (PFalse, s\<lparr>dev_object := p\<rparr>)
      | (Some resp, p) \<Rightarrow> (PStr (strip_terminator resp), s\<lparr>dev_object := p\<rparr>))"

section \<open>\<open>send_command\<close>\<close>

definition err_status :: "string list" where
  "err_status = [''invalid_param'', ''busy'', ''radio_err'']"

text \<open>
  The reading of the version line after \<open>sys reset\<close> and \<open>sys factoryRESET\<close>: the
  line must have six fields separated by single spaces, the first being the
  firmware name. Unpacking another number of fields, or splitting \<open>False\<close>, raises
  inside the \<open>try\<close> and gives \<open>(False, False)\<close>.
\<close>

definition version_result :: "pyval \<Rightarrow> pyval \<times> pyval" where
  "version_result status =
     (case status of
        PFalse \<Rightarrow> (PFalse, PFalse)
      | PStr line \<Rightarrow>
          (let fields = split_sp line
           in if length fields = 6
              then (if fields ! 0 = firmware_name then (PStr ''ok'', PStr line)
                    else (PFalse, PFalse))
              else (PFalse, PFalse)))"

text \<open>
  \<open>send_command\<close> returns a pair \<open>(status, response)\<close> and the object as the call
  leaves it. The branches are in the order of the source; a branch whose write
  fails falls through to the final \<open>return (status, response)\<close> with both still
  empty strings.
\<close>

definition send_command :: "session \<Rightarrow> string \<Rightarrow> (py_exn + pyval \<times> pyval) \<times> session" where
  "send_command s ps_cmd =
     (if dev_status s = ''error'' then (Inr (PFalse, PFalse), s)
      else case validate_command ps_cmd of
        Inl e \<Rightarrow> (Inl e, s)
      | Inr None \<Rightarrow> (Inr (PFalse, PFalse), s)
      | Inr (Some send_str) \<Rightarrow>
          if send_str = [] then (Inr (PFalse, PFalse), s)
          else if startswith send_str ''sys sleep'' then
            (let parts = split_sp send_str
             in if length parts \<le> 2 then (Inl IndexError, s)
                else let mils = parts ! 2;
                         (done, s1) = write_command s send_str
                     in if done
                        then (let (status, s2) = read_response s1
                              in if status = PStr ''ok'' then (Inr (PStr ''ok'', PStr mils), s2)
                                 else (Inr (PFalse, PFalse), s2))
                        else (Inr (PStr [], PStr []), s1))
          else if startswith send_str ''sys reset'' then
            (let (done, s1) = write_command s send_str
             in if done
                then (let (status, s2) = read_response s1 in (Inr (version_result status), s2))
                else (Inr (PStr [], PStr []), s1))
          else if startswith send_str ''sys eraseFW'' then
            (if safe_mode s = ''off''
             then (let (done, s1) = write_command s send_str
                   in if done then (Inr (PStr ''ok'', PStr ''awaiting firmware''), s1)
                      else (Inr (PStr [], PStr []), s1))
             else (Inr (PFalse, PFalse), s))
          else if startswith send_str ''sys factoryRESET'' then
            (if safe_mode s = ''off''
             then (let (done, s1) = write_command s send_str
                   in if done
                      then (let (status, s2) = read_response s1
                            in (Inr (version_result status), s2))
                      else (Inr (PStr [], PStr []), s1))
             else (Inr (PFalse, PFalse), s))
          else if startswith send_str ''radio rx '' then
            (let parts = split_sp send_str
             in if length parts \<le> 2 then (Inl IndexError, s)
                else (Inr (PStr [], PStr []), s))
          else if startswith send_str ''radio tx'' then (Inr (PStr [], PStr []), s)
          else
            (let (done, s1) = write_command s send_str
             in if done
                then (let (status, s2) = read_response s1
                      in case status of
                           PFalse \<Rightarrow> (Inr (PStr ''ok'', PFalse), s2)
                         | PStr line \<Rightarrow>
                             if line \<in> set err_status then (Inr (PFalse, PStr line), s2)
                             else if line \<noteq> ''ok'' then (Inr (PStr ''ok'', PStr line), s2)
                             else (Inr (PStr ''ok'', PStr []), s2))
                else (Inr (PStr [], PStr []), s1)))"

section \<open>\<open>get_device_config\<close>\<close>

definition config_cmds :: "string list" where
  "config_cmds =
     [''sys get ver'', ''sys get nvm'', ''sys get hweui'',
      ''mac get adr'', ''mac get appeui'', ''mac get ar'', ''mac get class'',
      ''mac get dcycleps'', ''mac get devaddr'', ''mac get deveui'', ''mac get dnctr'',
      ''mac get dr'', ''mac get gwnb'', ''mac get mcast'', ''mac get mcastdevaddr'',
      ''mac get mcastdnctr'', ''mac get mrgn'', ''mac get pwridx'', ''mac get retx'',
      ''mac get rx2'', ''mac get rxdelay1'', ''mac get rxdelay2'', ''mac get status'',
      ''mac get sync'', ''mac get upctr'',
      ''radio get afcbw'', ''radio get bitrate'', ''radio get bt'', ''radio get bw'',
      ''radio get cr'', ''radio get crc'', ''radio get fdev'', ''radio get freq'',
      ''radio get iqi'', ''radio get mod'', ''radio get prlen'', ''radio get pwr'',
      ''radio get rxbw'', ''radio get sf'', ''radio get sync'', ''radio get wdt'']"

text \<open>\<open>format(adr, 'x').upper()\<close>: the hexadecimal digits of \<open>adr\<close>, in upper case.\<close>

fun format_x_upper :: "nat \<Rightarrow> string" where
  "format_x_upper n =
     (if n < 16 then [''0123456789ABCDEF'' ! n]
      else format_x_upper (n div 16) @ [''0123456789ABCDEF'' ! (n mod 16)])"

declare format_x_upper.simps [simp del]

definition nvm_adr_str :: "nat \<Rightarrow> string" where
  "nvm_adr_str adr =
     (let nvm_adr = format_x_upper adr
      in if length nvm_adr < 2 then ''30'' @ nvm_adr else ''3'' @ nvm_adr)"

text \<open>
  The loop over the 256 addresses of the non-volatile memory. A response that is
  \<open>False\<close> under the status \<open>'ok'\<close> cannot be appended to the string \<open>nvm_data\<close>:
  \<open>TypeError\<close>.
\<close>

function nvm_loop :: "nat \<Rightarrow> string \<Rightarrow> session \<Rightarrow> (py_exn + string) \<times> session" where
  "nvm_loop adr nvm_data s =
     (if adr < 256
      then (case send_command s (''sys get nvm'' @ '' '' @ nvm_adr_str adr) of
              (Inl e, s1) \<Rightarrow> (Inl e, s1)
            | (Inr (status, response), s1) \<Rightarrow>
                if status = PStr ''ok''
                then (case response of
                        PFalse \<Rightarrow> (Inl TypeError, s1)
                      | PStr d \<Rightarrow> nvm_loop (adr + 1) (nvm_data @ d) s1)
                else nvm_loop (adr + 1) nvm_data s1)
      else (Inr nvm_data, s))"
  by pat_completeness auto
termination
  by (relation "measure (\<lambda>(adr, nvm_data, s). 256 - adr)") auto

declare nvm_loop.simps [simp del]

text \<open>\<open>d[k] = v\<close> on a dictionary kept in insertion order.\<close>

fun dict_set :: "(string \<times> 'v) list \<Rightarrow> string \<Rightarrow> 'v \<Rightarrow> (string \<times> 'v) list" where
  "dict_set [] k v = [(k, v)]"
| "dict_set ((k', v') # kvs) k v =
     (if k' = k then (k, v) # kvs else (k', v') # dict_set kvs k v)"

text \<open>\<open>config[ctype][cparm] = response\<close>; a group other than the three is \<open>KeyError\<close>.\<close>

definition config_set :: "config \<Rightarrow> string \<Rightarrow> string \<Rightarrow> pyval \<Rightarrow> py_exn + config" where
  "config_set config ctype cparm response =
     (if ctype = ''sys'' then Inr (config\<lparr>cfg_sys := dict_set (cfg_sys config) cparm response\<rparr>)
      else if ctype = ''mac'' then Inr (config\<lparr>cfg_mac := dict_set (cfg_mac config) cparm response\<rparr>)
      else if ctype = ''radio''
        then Inr (config\<lparr>cfg_radio := dict_set (cfg_radio config) cparm response\<rparr>)
      else Inl KeyError)"

text \<open>
  The loop over \<open>config_cmds\<close>. Each command is unpacked into three fields
  (\<open>ValueError\<close> otherwise). A command whose status is not \<open>'ok'\<close> is printed and the
  loop goes on.
\<close>

fun run_config_cmds ::
  "string list \<Rightarrow> config \<Rightarrow> session \<Rightarrow> (py_exn + config) \<times> session" where
  "run_config_cmds [] config s = (Inr config, s)"
| "run_config_cmds (cmd # cmds) config s =
     (case split_sp cmd of
        [ctype, cbase, cparm] \<Rightarrow>
          if cmd = ''sys get nvm'' then
            (case nvm_loop 0 [] s of
               (Inl e, s1) \<Rightarrow> (Inl e, s1)
             | (Inr nvm_data, s1) \<Rightarrow>
                 run_config_cmds cmds
                   (config\<lparr>cfg_sys := dict_set (cfg_sys config) ''nvm'' (PStr nvm_data)\<rparr>) s1)
          else if cmd = ''mac get ch'' then run_config_cmds cmds config s
          else
            (case send_command s cmd of
               (Inl e, s1) \<Rightarrow> (Inl e, s1)
             | (Inr (status, response), s1) \<Rightarrow>
                 if status \<noteq> PStr ''ok'' then run_config_cmds cmds config s1
                 else (case config_set config ctype cparm response of
                         Inl e \<Rightarrow> (Inl e, s1)
                       | Inr config1 \<Rightarrow> run_config_cmds cmds config1 s1))
      | _ \<Rightarrow> (Inl ValueError, s))"

definition get_device_config :: "session \<Rightarrow> (py_exn + config) \<times> session" where
  "get_device_config s =
     (case send_command s ''mac pause'' of
        (Inl e, s0) \<Rightarrow> (Inl e, s0)
      | (Inr paused, s0) \<Rightarrow>
          (case run_config_cmds config_cmds \<lparr>cfg_sys = [], cfg_mac = [], cfg_radio = []\<rparr> s0 of
             (Inl e, s1) \<Rightarrow> (Inl e, s1)
           | (Inr config, s1) \<Rightarrow>
               (case send_command s1 ''mac resume'' of
                  (Inl e, s2) \<Rightarrow> (Inl e, s2)
                | (Inr resumed, s2) \<Rightarrow> (Inr config, s2))))"

section \<open>\<open>put_device_config\<close>\<close>

text \<open>
  The first loop: every radio setting is validated as \<open>radio set <setting> <val>\<close>;
  \<open>config_valid\<close> becomes \<open>False\<close> at a command that does not validate. Joining a
  value that is not a string raises \<open>TypeError\<close>.
\<close>

fun validate_settings :: "(string \<times> pyval) list \<Rightarrow> bool \<Rightarrow> py_exn + bool" where
  "validate_settings [] config_valid = Inr config_valid"
| "validate_settings ((setting, val) # rest) config_valid =
     (case val of
        PFalse \<Rightarrow> Inl TypeError
      | PStr v \<Rightarrow>
          (case validate_command (''radio set '' @ setting @ '' '' @ v) of
             Inl e \<Rightarrow> Inl e
           | Inr None \<Rightarrow> validate_settings rest False
           | Inr (Some send_str) \<Rightarrow>
               if send_str = [] then validate_settings rest False
               else validate_settings rest config_valid))"

text \<open>
  The second loop: one \<open>radio set\<close> per setting; it leaves at the first status that
  is not \<open>'ok'\<close> with \<open>set_config = False\<close>.
\<close>

fun set_settings :: "(string \<times> pyval) list \<Rightarrow> session \<Rightarrow> (py_exn + bool) \<times> session" where
  "set_settings [] s = (Inr True, s)"
| "set_settings ((setting, val) # rest) s =
     (case val of
        PFalse \<Rightarrow> (Inl TypeError, s)
      | PStr v \<Rightarrow>
          (case send_command s (''radio set '' @ setting @ '' '' @ v) of
             (Inl e, s1) \<Rightarrow> (Inl e, s1)
           | (Inr (status, response), s1) \<Rightarrow>
               if status \<noteq> PStr ''ok'' then (Inr False, s1) else set_settings rest s1))"

definition put_device_config :: "session \<Rightarrow> (py_exn + bool) \<times> session" where
  "put_device_config s =
     (case validate_settings (cfg_radio (device_config s)) True of
        Inl e \<Rightarrow> (Inl e, s)
      | Inr config_valid \<Rightarrow>
          if config_valid then
            (case send_command s ''mac pause'' of
               (Inl e, s1) \<Rightarrow> (Inl e, s1)
             | (Inr (status, response), s1) \<Rightarrow>
                 if status \<noteq> PStr ''ok'' then (Inr False, s1)
                 else
                   (case set_settings (cfg_radio (device_config s1)) s1 of
                      (Inl e, s2) \<Rightarrow> (Inl e, s2)
                    | (Inr set_config, s2) \<Rightarrow>
                        (case (if set_config then send_command s2 ''mac save''
                               else (Inr (status, response), s2)) of
                           (Inl e, s3) \<Rightarrow> (Inl e, s3)
                         | (Inr saved, s3) \<Rightarrow>
                             (case send_command s3 ''mac resume'' of
                                (Inl e, s4) \<Rightarrow> (Inl e, s4)
                              | (Inr (status4, response4), s4) \<Rightarrow>
                                  if status4 \<noteq> PStr ''ok'' then (Inr False, s4)
                                  else (Inr True, s4)))))
          else (Inr True, s))"

section \<open>The written log only grows\<close>

lemma write_command_written:
  "write_command s c = (d, s1) \<Longrightarrow> prefix (written (dev_object s)) (written (dev_object s1))"
  by (auto simp: write_command_def serial_write_def split: if_splits list.splits prod.splits)

lemma read_loop_written: "written (snd (read_loop n r p)) = written p"
proof (induction n r p rule: read_loop.induct)
  case (1 count resp p)
  show ?case
  proof (cases "count < 256")
    case True
    then show ?thesis
      using 1
      by (subst read_loop.simps)
         (auto simp: serial_read_def split: list.splits rd_event.splits prod.splits)
  next
    case False
    then show ?thesis by (subst read_loop.simps) simp
  qed
qed

lemma read_response_written:
  "read_response s1 = (st, s2) \<Longrightarrow> written (dev_object s2) = written (dev_object s1)"
  using read_loop_written [of 0 "[]" "dev_object s1"]
  by (auto simp: read_response_def split: prod.splits option.splits)

lemma send_command_written:
  "send_command s c = (r, s') \<Longrightarrow> prefix (written (dev_object s)) (written (dev_object s'))"
  unfolding send_command_def
  by (auto simp: Let_def split: if_splits sum.splits option.splits prod.splits pyval.splits
      dest!: write_command_written read_response_written)

lemma nvm_loop_written:
  "prefix (written (dev_object s)) (written (dev_object (snd (nvm_loop adr d s))))"
proof (induction "256 - adr" arbitrary: adr d s)
  case 0
  then show ?case by (subst nvm_loop.simps) simp
next
  case (Suc n)
  then have lt: "adr < 256" and n: "n = 256 - (adr + 1)" by simp_all
  obtain r s1 where sc: "send_command s (''sys get nvm'' @ '' '' @ nvm_adr_str adr) = (r, s1)"
    by (cases "send_command s (''sys get nvm'' @ '' '' @ nvm_adr_str adr)")
  have p1: "prefix (written (dev_object s)) (written (dev_object s1))"
    using send_command_written [OF sc] .
  have ih: "\<And>d'. prefix (written (dev_object s1))
      (written (dev_object (snd (nvm_loop (adr + 1) d' s1))))"
    using Suc.hyps(1) [OF n] .
  show ?case
    using p1 ih lt sc
    by (subst nvm_loop.simps)
       (auto split: sum.splits pyval.splits prod.splits intro: prefix_order.trans)
qed

lemma run_config_cmds_written:
  "prefix (written (dev_object s)) (written (dev_object (snd (run_config_cmds cmds c s))))"
proof (induction cmds arbitrary: c s)
  case Nil
  then show ?case by simp
next
  case (Cons cmd cmds)
  have nv: "\<And>r s1. nvm_loop 0 [] s = (r, s1) \<Longrightarrow>
      prefix (written (dev_object s)) (written (dev_object s1))"
    using nvm_loop_written [of s 0 "[]"] by simp
  show ?case
    using Cons.IH
    by (auto split: list.splits sum.splits prod.splits
        dest!: send_command_written nv intro: prefix_order.trans)
qed

section \<open>The status \<open>'error'\<close>\<close>

lemma send_command_error:
  "dev_status s = ''error'' \<Longrightarrow> send_command s c = (Inr (PFalse, PFalse), s)"
  by (simp add: send_command_def)

lemma nvm_loop_error: "dev_status s = ''error'' \<Longrightarrow> nvm_loop adr d s = (Inr d, s)"
proof (induction "256 - adr" arbitrary: adr)
  case 0
  then show ?case by (subst nvm_loop.simps) simp
next
  case (Suc n)
  then have lt: "adr < 256" and n: "n = 256 - (adr + 1)" by simp_all
  have "nvm_loop adr d s = nvm_loop (adr + 1) d s"
    by (subst nvm_loop.simps) (simp add: lt send_command_error Suc.prems)
  also have "\<dots> = (Inr d, s)"
    using Suc.hyps(1) [OF n Suc.prems] .
  finally show ?case .
qed

lemma get_device_config_error:
  "dev_status s = ''error'' \<Longrightarrow>
   get_device_config s =
     (Inr \<lparr>cfg_sys = [(''nvm'', PStr [])], cfg_mac = [], cfg_radio = []\<rparr>, s)"
  by (simp add: get_device_config_def send_command_error nvm_loop_error config_cmds_def
      split_sp_def)

lemma put_device_config_error:
  "dev_status s = ''error'' \<Longrightarrow> snd (put_device_config s) = s"
  by (auto simp: put_device_config_def send_command_error split: sum.splits)

lemma put_device_config_error_valid:
  "dev_status s = ''error'' \<Longrightarrow> validate_settings (cfg_radio (device_config s)) True = Inr True
   \<Longrightarrow> put_device_config s = (Inr False, s)"
  by (auto simp: put_device_config_def send_command_error split: sum.splits)

section \<open>\<open>get_device_config\<close> after \<open>mac pause\<close>\<close>

lemma validate_mac_pause: "validate_command ''mac pause'' = Inr (Some ''mac pause'')"
  by code_simp

lemma validate_sys_get_ver: "validate_command ''sys get ver'' = Inr (Some ''sys get ver'')"
  by code_simp

lemma send_mac_pause_returns: "\<exists>r. fst (send_command s ''mac pause'') = Inr r"
  by (simp add: send_command_def validate_mac_pause startswith_def Let_def
      split: prod.splits pyval.splits)

lemma send_sys_get_ver_returns: "\<exists>r. fst (send_command s ''sys get ver'') = Inr r"
  by (simp add: send_command_def validate_sys_get_ver startswith_def Let_def
      split: prod.splits pyval.splits)

lemma config_cmds_first: "config_cmds = ''sys get ver'' # tl config_cmds"
  by (simp add: config_cmds_def)

lemma run_config_cmds_first:
  assumes v: "send_command s0 ''sys get ver'' = (Inr r1, s1)"
  shows "prefix (written (dev_object s1))
    (written (dev_object (snd (run_config_cmds (''sys get ver'' # cmds) c s0))))"
proof -
  have rest: "\<And>c. prefix (written (dev_object s1))
      (written (dev_object (snd (run_config_cmds cmds c s1))))"
    by (rule run_config_cmds_written)
  show ?thesis
    using rest
    by (cases r1) (simp add: v split_sp_def config_set_def)
qed

text \<open>
  Whatever \<open>mac pause\<close> returned, \<open>get_device_config\<close> goes on to send
  \<open>sys get ver\<close>: what the two calls wrote is the beginning of what the method wrote.
\<close>

lemma get_device_config_reads_version:
  "prefix
     (written (dev_object (snd (send_command (snd (send_command s ''mac pause''))
        ''sys get ver''))))
     (written (dev_object (snd (get_device_config s))))"
proof -
  obtain r0 s0 where p: "send_command s ''mac pause'' = (Inr r0, s0)"
    using send_mac_pause_returns [of s] by (cases "send_command s ''mac pause''") auto
  obtain r1 s1 where v: "send_command s0 ''sys get ver'' = (Inr r1, s1)"
    using send_sys_get_ver_returns [of s0] by (cases "send_command s0 ''sys get ver''") auto
  define c0 where "c0 = \<lparr>cfg_sys = [], cfg_mac = [], cfg_radio = []\<rparr>"
  obtain r2 s2 where run: "run_config_cmds config_cmds c0 s0 = (r2, s2)"
    by (cases "run_config_cmds config_cmds c0 s0")
  have a: "prefix (written (dev_object s1)) (written (dev_object s2))"
    using run_config_cmds_first [OF v, of "tl config_cmds" c0] config_cmds_first run by simp
  have fin: "\<And>r s3. send_command s2 ''mac resume'' = (r, s3) \<Longrightarrow>
      prefix (written (dev_object s2)) (written (dev_object s3))"
    by (rule send_command_written)
  show ?thesis
    unfolding get_device_config_def
    using a fin
    by (auto simp: p v run c0_def [symmetric] split: prod.splits sum.splits
        intro: prefix_order.trans)
qed

lemma pause_then_version_written:
  "written (dev_object (snd (send_command (snd (send_command
      (idle_session (fresh_port [''busy'']) default_config) ''mac pause'')) ''sys get ver'')))
   = [''mac pause'' @ data_termintaor, ''sys get ver'' @ data_termintaor]"
  by code_simp

section \<open>Tokens that \<open>validate_command\<close> does not read\<close>

lemma check_param_empty: "\<not> check_param [] d"
  by (cases d) simp_all

lemma check_inputs_extend:
  assumes "check_inputs ui str p q = Inr (Some c)"
    and "p = [] \<or> p' = p" and "q = [] \<or> q' = q"
  shows "check_inputs ui str p' q' = Inr (Some c)"
  using assms
  by (auto simp: check_inputs_def Let_def check_param_empty split: list.splits if_splits)

lemma table_no_empty_key_all:
  "list_all (\<lambda>tn. list_all (\<lambda>bn. map_of (children (snd bn)) [] = None) (children (snd tn))) commands"
  by code_simp

lemma table_no_empty_key:
  assumes "map_of commands t = Some tn" and "map_of (children tn) b = Some bn"
  shows "map_of (children bn) [] = None"
proof -
  have 1: "(t, tn) \<in> set commands" using assms(1) by (rule map_of_SomeD)
  have 2: "(b, bn) \<in> set (children tn)" using assms(2) by (rule map_of_SomeD)
  from table_no_empty_key_all 1 2 show ?thesis
    by (fastforce simp: list_all_iff)
qed

lemma table_depth_four_all:
  "list_all (\<lambda>tn. list_all (\<lambda>bn. list_all (\<lambda>sn.
      truthy (snd sn) \<and> user_input (snd sn) = None \<longrightarrow>
      fst tn = ''mac'' \<and> fst bn = ''get'' \<and> fst sn = ''ch'' \<and> snd sn = mac_get_ch)
     (children (snd bn))) (children (snd tn))) commands"
  by code_simp

lemma table_depth_four:
  assumes "map_of commands t = Some tn" and "map_of (children tn) b = Some bn"
    and "map_of (children bn) p = Some sn" and "truthy sn" and "user_input sn = None"
  shows "t = ''mac'' \<and> b = ''get'' \<and> p = ''ch'' \<and> sn = mac_get_ch"
proof -
  have 1: "(t, tn) \<in> set commands" using assms(1) by (rule map_of_SomeD)
  have 2: "(b, bn) \<in> set (children tn)" using assms(2) by (rule map_of_SomeD)
  have 3: "(p, sn) \<in> set (children bn)" using assms(3) by (rule map_of_SomeD)
  from table_depth_four_all 1 2 3 assms(4,5) show ?thesis
    by (fastforce simp: list_all_iff)
qed


lemma validate_pars_ch:
  "validate_pars ''mac'' ''get'' ''ch'' x y =
     Inr (Some (if x \<in> {''freq'', ''drrange'', ''status''} \<and> check_param y (IntP 0 71)
                then ''mac get ch '' @ y else ''mac get ch''))"
  by (simp add: validate_pars_def commands_def mac_commands_def mac_get_ch_def branch_def
      leaf_def inputs_def truthy_def)

lemma validate_pars_extend:
  assumes ok: "validate_pars t b p1 p2 p3 = Inr (Some c)"
    and e1: "p1 = [] \<or> p1' = p1" and e2: "p2 = [] \<or> p2' = p2" and e3: "p3 = [] \<or> p3' = p3"
  shows "(c \<noteq> ''mac get ch'' \<longrightarrow> validate_pars t b p1' p2' p3' = Inr (Some c)) \<and>
         (\<exists>c'. validate_pars t b p1' p2' p3' = Inr (Some c'))"
proof -
  from ok obtain tn where tn: "map_of commands t = Some tn"
    by (auto simp: validate_pars_def split: option.splits)
  from ok tn obtain bn where bn: "map_of (children tn) b = Some bn"
    by (auto simp: validate_pars_def split: option.splits)
  show ?thesis
  proof (cases "truthy bn")
    case False
    then show ?thesis using ok tn bn by (simp add: validate_pars_def)
  next
    case tb: True
    show ?thesis
    proof (cases "user_input bn")
      case (Some ui)
      then have "check_inputs ui (t @ '' '' @ b) p1 p2 = Inr (Some c)"
        using ok tn bn tb by (simp add: validate_pars_def)
      from check_inputs_extend [OF this e1 e2] show ?thesis
        using tn bn tb Some by (simp add: validate_pars_def)
    next
      case None
      from ok tn bn tb None obtain sn where sn: "map_of (children bn) p1 = Some sn"
        by (auto simp: validate_pars_def split: option.splits)
      have "p1 \<noteq> []" using table_no_empty_key [OF tn bn] sn by auto
      then have p1: "p1' = p1" using e1 by simp
      show ?thesis
      proof (cases "truthy sn")
        case False
        then show ?thesis using ok tn bn tb None sn p1 by (simp add: validate_pars_def)
      next
        case ts: True
        show ?thesis
        proof (cases "user_input sn")
          case (Some ui)
          then have "check_inputs ui ((t @ '' '' @ b) @ '' '' @ p1) p2 p3 = Inr (Some c)"
            using ok tn bn tb None sn ts by (simp add: validate_pars_def)
          from check_inputs_extend [OF this e2 e3] show ?thesis
            using tn bn tb None sn ts Some p1 by (simp add: validate_pars_def)
        next
          case sNone: None
          from table_depth_four [OF tn bn sn ts sNone]
          have tb: "t = ''mac''" "b = ''get''" "p1 = ''ch''" by simp_all
          have c: "c = (if p2 \<in> {''freq'', ''drrange'', ''status''} \<and> check_param p3 (IntP 0 71)
                then ''mac get ch '' @ p3 else ''mac get ch'')"
            using ok unfolding tb validate_pars_ch by (simp del: check_param.simps)
          show ?thesis
          proof (cases "c = ''mac get ch''")
            case True
            then show ?thesis
              unfolding tb p1 validate_pars_ch by (simp del: check_param.simps)
          next
            case False
            then have a: "p2 \<in> {''freq'', ''drrange'', ''status''}" and b: "check_param p3 (IntP 0 71)"
              using c by (auto simp del: check_param.simps split: if_splits)
            from a e2 have "p2' = p2" by auto
            moreover from b e3 have "p3' = p3" using check_param_empty by auto
            ultimately show ?thesis
              using ok a b unfolding tb p1 validate_pars_ch
              by (simp del: check_param.simps)
          qed
        qed
      qed
    qed
  qed
qed

lemma validate_pars_forms:
  assumes "validate_pars t b p1 p2 p3 = Inr (Some c)"
  shows "c \<in> {t @ '' '' @ b,
              t @ '' '' @ b @ '' '' @ p1,
              t @ '' '' @ b @ '' '' @ p1 @ '' '' @ p2,
              t @ '' '' @ b @ '' '' @ p1 @ '' '' @ p2 @ '' '' @ p3,
              t @ '' '' @ b @ '' '' @ p1 @ '' '' @ p3}"
  using assms
  by (auto simp: validate_pars_def check_inputs_def Let_def
      split: option.splits list.splits if_splits)

lemma validate_cmd_set_take: "validate_cmd_set (take 5 ts) = validate_cmd_set ts"
  by (simp add: validate_cmd_set_def cmd_par_def Let_def)

lemma py_split_aux_append:
  "py_isspace c \<Longrightarrow> py_split_aux cur (a @ c # b) = py_split_aux cur a @ py_split_aux [] b"
  by (induction a arbitrary: cur) auto

lemma py_split_append: "py_split (a @ '' '' @ b) = py_split a @ py_split b"
  using py_split_aux_append [of "CHR '' ''" "[]" a b]
  by (simp add: py_split_def py_isspace_def)

lemma validate_cmd_set_extend:
  assumes ok: "validate_cmd_set ts = Inr (Some c)"
  shows "(c \<noteq> ''mac get ch'' \<longrightarrow> validate_cmd_set (ts @ ex) = Inr (Some c)) \<and>
         (\<exists>c'. validate_cmd_set (ts @ ex) = Inr (Some c'))"
proof -
  have len: "\<not> length ts < 2"
    using ok by (auto simp: validate_cmd_set_def split: if_splits)
  then have vp: "validate_pars (py_lower (ts ! 0)) (ts ! 1) (cmd_par ts 2) (cmd_par ts 3)
      (cmd_par ts 4) = Inr (Some c)"
    using ok by (simp add: validate_cmd_set_def Let_def)
  have e: "\<And>i. cmd_par ts i = [] \<or> cmd_par (ts @ ex) i = cmd_par ts i"
    by (auto simp: cmd_par_def nth_append)
  have hd: "(ts @ ex) ! 0 = ts ! 0" "(ts @ ex) ! Suc 0 = ts ! Suc 0"
    using len by (auto simp: nth_append)
  show ?thesis
    using validate_pars_extend [OF vp e e e] len
    by (simp add: validate_cmd_set_def Let_def hd)
qed

section \<open>Claims\<close>

text \<open>
  C1. For a canonical command \<open>radio rx <n>\<close> or \<open>radio tx <hex>\<close>, \<open>send_command\<close>
  should write the command to the port and return once the write went through.
  The two branches of \<open>send_command\<close> only log: on an idle device with a port that
  accepts every write, \<open>radio rx 0\<close> and \<open>radio tx 48656c6C6F\<close> both validate, nothing
  is written, and the result is the pair of empty strings with which \<open>status\<close> and
  \<open>response\<close> were initialised.
\<close>

theorem radio_rx_tx_never_written:
  "validate_command ''radio rx 0'' = Inr (Some ''radio rx 0'') \<and>
   send_command (idle_session (fresh_port []) default_config) ''radio rx 0''
     = (Inr (PStr [], PStr []), idle_session (fresh_port []) default_config) \<and>
   validate_command ''radio tx 48656c6C6F'' = Inr (Some ''radio tx 48656c6C6F'') \<and>
   send_command (idle_session (fresh_port []) default_config) ''radio tx 48656c6C6F''
     = (Inr (PStr [], PStr []), idle_session (fresh_port []) default_config)"
  by code_simp

text \<open>
  C2. A parameter that violates its definition should make validation fail. At
  depth four the failed check has no \<open>else\<close>: \<open>mac get ch freq 72\<close>, whose channel
  is above 71, validates, to the command \<open>mac get ch\<close>.
\<close>

theorem depth_four_bad_param_accepted:
  "validate_command ''mac get ch freq 72'' = Inr (Some ''mac get ch'')"
  by code_simp

text \<open>
  C3, as the code has it. For a command outside the special branches whose write
  went through and whose response line was read, the result is a failure carrying
  the line exactly when the line is one of \<open>invalid_param\<close>, \<open>busy\<close>, \<open>radio_err\<close>
  (the list \<open>err_status\<close>); \<open>ok\<close> gives status \<open>ok\<close> with the empty response; every
  other line, the remaining device codes included, gives status \<open>ok\<close> with the line
  as response.
\<close>

theorem send_command_other_response:
  assumes "dev_status s \<noteq> ''error''"
    and "validate_command ps_cmd = Inr (Some send_str)"
    and "\<not> startswith send_str ''sys sleep''"
    and "\<not> startswith send_str ''sys reset''"
    and "\<not> startswith send_str ''sys eraseFW''"
    and "\<not> startswith send_str ''sys factoryRESET''"
    and "\<not> startswith send_str ''radio rx ''"
    and "\<not> startswith send_str ''radio tx''"
    and "write_command s send_str = (True, s1)"
    and "read_response s1 = (PStr line, s2)"
  shows "send_command s ps_cmd =
     (Inr (if line \<in> {''invalid_param'', ''busy'', ''radio_err''} then (PFalse, PStr line)
           else if line = ''ok'' then (PStr ''ok'', PStr [])
           else (PStr ''ok'', PStr line)), s2)"
proof -
  have ne: "send_str \<noteq> []"
    using assms(9) by (auto simp: write_command_def)
  show ?thesis
    using assms ne by (simp add: send_command_def err_status_def)
qed

text \<open>
  C4. \<open>get_device_config\<close> should stop when \<open>mac pause\<close> fails. It does not look
  at the status: on an idle device that answers \<open>busy\<close> to \<open>mac pause\<close>, the pause
  fails and the method still writes \<open>sys get ver\<close> next.
\<close>

theorem get_device_config_ignores_pause_failure:
  "fst (send_command (idle_session (fresh_port [''busy'']) default_config) ''mac pause'')
     = Inr (PFalse, PStr ''busy'') \<and>
   prefix [''mac pause'' @ data_termintaor, ''sys get ver'' @ data_termintaor]
     (written (dev_object (snd (get_device_config
        (idle_session (fresh_port [''busy'']) default_config)))))"
proof
  show "fst (send_command (idle_session (fresh_port [''busy'']) default_config) ''mac pause'')
     = Inr (PFalse, PStr ''busy'')"
    by code_simp
  show "prefix [''mac pause'' @ data_termintaor, ''sys get ver'' @ data_termintaor]
     (written (dev_object (snd (get_device_config
        (idle_session (fresh_port [''busy'']) default_config)))))"
    using get_device_config_reads_version
      [of "idle_session (fresh_port [''busy'']) default_config"]
    unfolding pause_then_version_written .
qed

text \<open>
  C5. \<open>put_device_config\<close> should report a failure when a radio setting does not
  validate and when a \<open>radio set\<close> fails. Its last statement is \<open>return True\<close>: with
  the setting \<open>sf = sf13\<close> nothing is written and the result is \<open>True\<close>; with
  \<open>sf = sf7\<close>, \<open>pwr = 2\<close> and a device that answers \<open>invalid_param\<close> to the first
  \<open>radio set\<close>, the loop stops there, \<open>mac resume\<close> is sent, and the result is \<open>True\<close>.
\<close>

theorem put_device_config_returns_true_on_failure:
  "put_device_config
     (idle_session (fresh_port []) (default_config\<lparr>cfg_radio := [(''sf'', PStr ''sf13'')]\<rparr>))
   = (Inr True,
      idle_session (fresh_port []) (default_config\<lparr>cfg_radio := [(''sf'', PStr ''sf13'')]\<rparr>)) \<and>
   fst (put_device_config
     (idle_session (fresh_port [''4294967245'', ''invalid_param'', ''ok''])
        (default_config\<lparr>cfg_radio := [(''sf'', PStr ''sf7''), (''pwr'', PStr ''2'')]\<rparr>)))
   = Inr True \<and>
   written (dev_object (snd (put_device_config
     (idle_session (fresh_port [''4294967245'', ''invalid_param'', ''ok''])
        (default_config\<lparr>cfg_radio := [(''sf'', PStr ''sf7''), (''pwr'', PStr ''2'')]\<rparr>)))))
   = [''mac pause'' @ data_termintaor, ''radio set sf sf7'' @ data_termintaor,
      ''mac resume'' @ data_termintaor]"
  by code_simp

text \<open>
  C6. With safe mode on (any value of \<open>safe_mode\<close> other than \<open>'off'\<close>), a request
  whose validated command is \<open>sys eraseFW\<close> or \<open>sys factoryRESET\<close> returns
  \<open>(False, False)\<close> and leaves the object, hence the port, as it was: no write, no
  read.
\<close>

theorem safe_mode_rejects_destructive:
  assumes "safe_mode s \<noteq> ''off''"
    and "validate_command ps_cmd = Inr (Some send_str)"
    and "send_str = ''sys eraseFW'' \<or> send_str = ''sys factoryRESET''"
  shows "send_command s ps_cmd = (Inr (PFalse, PFalse), s)"
  using assms by (auto simp: send_command_def startswith_def)

text \<open>
  C7, as the code has it. In the status \<open>'error'\<close>, \<open>send_command\<close> returns
  \<open>(False, False)\<close> at once; \<open>get_device_config\<close> and \<open>put_device_config\<close> have no
  check of their own, every command they send is turned down by \<open>send_command\<close>,
  and they leave the object, hence the port, as it was. \<open>get_device_config\<close>
  returns a snapshot whose only entry is an empty \<open>nvm\<close>; \<open>put_device_config\<close>
  returns \<open>False\<close> when every radio setting validates.
\<close>

theorem error_state_no_transport:
  assumes "dev_status s = ''error''"
  shows "send_command s ps_cmd = (Inr (PFalse, PFalse), s) \<and>
         get_device_config s =
           (Inr \<lparr>cfg_sys = [(''nvm'', PStr [])], cfg_mac = [], cfg_radio = []\<rparr>, s) \<and>
         snd (put_device_config s) = s \<and>
         (validate_settings (cfg_radio (device_config s)) True = Inr True \<longrightarrow>
            put_device_config s = (Inr False, s))"
  using assms
  by (simp add: send_command_error get_device_config_error put_device_config_error
      put_device_config_error_valid)

text \<open>
  C8. Validating a validated command should give it back. The depth-four branch
  appends the parameter without the sub-command before it: \<open>mac get ch freq 5\<close>
  validates to \<open>mac get ch 5\<close>, which validates to \<open>mac get ch\<close>.
\<close>

theorem canonical_not_idempotent_at_depth_four:
  "validate_command ''mac get ch freq 5'' = Inr (Some ''mac get ch 5'') \<and>
   validate_command ''mac get ch 5'' = Inr (Some ''mac get ch'')"
  by code_simp

text \<open>
  C9. A command of fewer than two tokens should be rejected. The test is for a
  space character, not for the number of tokens: \<open>sys\<close> followed by a space passes
  it, splits into one token, and reading the second raises \<open>IndexError\<close>, which
  neither \<open>validate_command\<close> nor \<open>send_command\<close> catches.
\<close>

theorem one_token_with_space_raises:
  "validate_command ''sys '' = Inl IndexError \<and>
   fst (send_command (idle_session (fresh_port []) default_config) ''sys '') = Inl IndexError"
  by code_simp

text \<open>
  C10. When a command validates, the tokens after the ones it recognised play no
  part: the result is the same for every command with the same first five tokens;
  a command extended by a space and further text still validates, and to the same
  string unless that string is \<open>mac get ch\<close> (which further tokens can complete
  to a command with a channel number); and the string returned is made of the
  lower-cased type, the base and, in their order, some of the three parameters
  only, joined by single spaces.
\<close>

theorem surplus_tokens_discarded:
  assumes ok: "validate_command cmd = Inr (Some c)"
  shows "(CHR '' '' \<in> set cmd' \<and> take 5 (py_split cmd') = take 5 (py_split cmd) \<longrightarrow>
            validate_command cmd' = Inr (Some c)) \<and>
         (\<exists>c'. validate_command (cmd @ '' '' @ junk) = Inr (Some c')) \<and>
         (c \<noteq> ''mac get ch'' \<longrightarrow> validate_command (cmd @ '' '' @ junk) = Inr (Some c)) \<and>
         (let ts = py_split cmd; t = py_lower (ts ! 0); b = ts ! 1;
              p1 = cmd_par ts 2; p2 = cmd_par ts 3; p3 = cmd_par ts 4
          in c \<in> {t @ '' '' @ b,
                   t @ '' '' @ b @ '' '' @ p1,
                   t @ '' '' @ b @ '' '' @ p1 @ '' '' @ p2,
                   t @ '' '' @ b @ '' '' @ p1 @ '' '' @ p2 @ '' '' @ p3,
                   t @ '' '' @ b @ '' '' @ p1 @ '' '' @ p3})"
proof -
  have sp: "CHR '' '' \<in> set cmd" and vs: "validate_cmd_set (py_split cmd) = Inr (Some c)"
    using ok by (auto simp: validate_command_def split: if_splits)
  have len: "\<not> length (py_split cmd) < 2"
    using vs by (auto simp: validate_cmd_set_def split: if_splits)
  have a: "CHR '' '' \<in> set cmd' \<and> take 5 (py_split cmd') = take 5 (py_split cmd) \<longrightarrow>
            validate_command cmd' = Inr (Some c)"
  proof (intro impI, elim conjE)
    assume s: "CHR '' '' \<in> set cmd'" and t: "take 5 (py_split cmd') = take 5 (py_split cmd)"
    have "validate_cmd_set (py_split cmd') = validate_cmd_set (take 5 (py_split cmd'))"
      by (simp only: validate_cmd_set_take)
    also have "\<dots> = validate_cmd_set (py_split cmd)"
      by (simp only: t validate_cmd_set_take)
    finally show "validate_command cmd' = Inr (Some c)"
      using s vs by (simp add: validate_command_def)
  qed
  have j: "validate_command (cmd @ '' '' @ junk) = validate_cmd_set (py_split cmd @ py_split junk)"
    by (simp add: validate_command_def py_split_append [symmetric])
  have b: "(\<exists>c'. validate_command (cmd @ '' '' @ junk) = Inr (Some c')) \<and>
         (c \<noteq> ''mac get ch'' \<longrightarrow> validate_command (cmd @ '' '' @ junk) = Inr (Some c))"
    using validate_cmd_set_extend [OF vs, of "py_split junk"] unfolding j by blast
  have vp: "validate_pars (py_lower (py_split cmd ! 0)) (py_split cmd ! 1) (cmd_par (py_split cmd) 2)
      (cmd_par (py_split cmd) 3) (cmd_par (py_split cmd) 4) = Inr (Some c)"
    using vs len by (simp add: validate_cmd_set_def Let_def)
  show ?thesis
    using a b validate_pars_forms [OF vp] unfolding Let_def by blast
qed

section \<open>Instances\<close>

theorem send_command_other_response_witness:
  "send_command (idle_session (fresh_port [''busy'']) default_config) ''mac save'' =
     (Inr (PFalse, PStr ''busy''),
      idle_session \<lparr>written = [''mac save'' @ data_termintaor], wr_script = [], rd_script = []\<rparr>
        default_config)"
proof -
  let ?s = "idle_session (fresh_port [''busy'']) default_config"
  let ?s1 = "idle_session \<lparr>written = [''mac save'' @ data_termintaor], wr_script = [],
      rd_script = line_bytes ''busy''\<rparr> default_config"
  let ?s2 = "idle_session \<lparr>written = [''mac save'' @ data_termintaor], wr_script = [],
      rd_script = []\<rparr> default_config"
  have h1: "dev_status ?s \<noteq> ''error''" by (simp add: idle_session_def)
  have h2: "validate_command ''mac save'' = Inr (Some ''mac save'')" by code_simp
  have h3: "\<not> startswith ''mac save'' ''sys sleep''" by (simp add: startswith_def)
  have h4: "\<not> startswith ''mac save'' ''sys reset''" by (simp add: startswith_def)
  have h5: "\<not> startswith ''mac save'' ''sys eraseFW''" by (simp add: startswith_def)
  have h6: "\<not> startswith ''mac save'' ''sys factoryRESET''" by (simp add: startswith_def)
  have h7: "\<not> startswith ''mac save'' ''radio rx ''" by (simp add: startswith_def)
  have h8: "\<not> startswith ''mac save'' ''radio tx''" by (simp add: startswith_def)
  have h9: "write_command ?s ''mac save'' = (True, ?s1)" by code_simp
  have h10: "read_response ?s1 = (PStr ''busy'', ?s2)" by code_simp
  show ?thesis
    using send_command_other_response [OF h1 h2 h3 h4 h5 h6 h7 h8 h9 h10] by simp
qed

text \<open>
  The device code \<open>err\<close> is not in \<open>err_status\<close>: as the answer to \<open>mac save\<close> it
  is returned as the response under the status \<open>ok\<close>.
\<close>

theorem device_code_err_reported_ok:
  "send_command (idle_session (fresh_port [''err'']) default_config) ''mac save'' =
     (Inr (PStr ''ok'', PStr ''err''),
      idle_session \<lparr>written = [''mac save'' @ data_termintaor], wr_script = [], rd_script = []\<rparr>
        default_config)"
  by code_simp

theorem safe_mode_rejects_destructive_witness:
  "safe_mode (idle_session (fresh_port []) default_config) \<noteq> ''off'' \<and>
   validate_command ''SYS eraseFW now'' = Inr (Some ''sys eraseFW'') \<and>
   send_command (idle_session (fresh_port []) default_config) ''SYS eraseFW now''
     = (Inr (PFalse, PFalse), idle_session (fresh_port []) default_config)"
proof -
  have a: "safe_mode (idle_session (fresh_port []) default_config) \<noteq> ''off''"
    by (simp add: idle_session_def)
  have b: "validate_command ''SYS eraseFW now'' = Inr (Some ''sys eraseFW'')"
    by code_simp
  show ?thesis
    using a b safe_mode_rejects_destructive [OF a b] by simp
qed

theorem error_state_no_transport_witness:
  "dev_status (error_session (fresh_port []) default_config) = ''error'' \<and>
   send_command (error_session (fresh_port []) default_config) ''sys get ver''
     = (Inr (PFalse, PFalse), error_session (fresh_port []) default_config) \<and>
   snd (get_device_config (error_session (fresh_port []) default_config))
     = error_session (fresh_port []) default_config \<and>
   put_device_config (error_session (fresh_port []) default_config)
     = (Inr False, error_session (fresh_port []) default_config)"
proof -
  have a: "dev_status (error_session (fresh_port []) default_config) = ''error''"
    by (simp add: error_session_def)
  have b: "validate_settings
      (cfg_radio (device_config (error_session (fresh_port []) default_config))) True = Inr True"
    by code_simp
  show ?thesis
    using a b error_state_no_transport [OF a, of "''sys get ver''"] by simp
qed

text \<open>
  In the status \<open>'error'\<close> \<open>get_device_config\<close> returns a snapshot, not a failure,
  and \<open>put_device_config\<close> returns \<open>True\<close> for a setting that does not validate.
\<close>

theorem error_state_operations_return_values:
  "fst (get_device_config (error_session (fresh_port []) default_config))
     = Inr \<lparr>cfg_sys = [(''nvm'', PStr [])], cfg_mac = [], cfg_radio = []\<rparr> \<and>
   fst (put_device_config (error_session (fresh_port [])
      (default_config\<lparr>cfg_radio := [(''sf'', PStr ''sf13'')]\<rparr>))) = Inr True"
proof
  show "fst (get_device_config (error_session (fresh_port []) default_config))
     = Inr \<lparr>cfg_sys = [(''nvm'', PStr [])], cfg_mac = [], cfg_radio = []\<rparr>"
    by (simp add: get_device_config_error error_session_def)
  show "fst (put_device_config (error_session (fresh_port [])
      (default_config\<lparr>cfg_radio := [(''sf'', PStr ''sf13'')]\<rparr>))) = Inr True"
    by code_simp
qed

theorem surplus_tokens_discarded_witness:
  "validate_command ''sys set nvm 300 FF junk'' = Inr (Some ''sys set nvm 300 FF'') \<and>
   validate_command ''sys  set nvm 300 FF other words'' = Inr (Some ''sys set nvm 300 FF'') \<and>
   validate_command (''sys set nvm 300 FF junk'' @ '' '' @ ''more'')
     = Inr (Some ''sys set nvm 300 FF'') \<and>
   validate_command ''sys sleep 100 junk'' = Inr (Some ''sys sleep 100'')"
proof -
  have x: "validate_command ''sys sleep 100 junk'' = Inr (Some ''sys sleep 100'')"
    by code_simp
  have h: "validate_command ''sys set nvm 300 FF junk'' = Inr (Some ''sys set nvm 300 FF'')"
    by code_simp
  have s: "CHR '' '' \<in> set ''sys  set nvm 300 FF other words''" by simp
  have t: "take 5 (py_split ''sys  set nvm 300 FF other words'')
      = take 5 (py_split ''sys set nvm 300 FF junk'')"
    by code_simp
  have n: "''sys set nvm 300 FF'' \<noteq> ''mac get ch''" by simp
  show ?thesis
    using h s t n x
      surplus_tokens_discarded [OF h, of "''sys  set nvm 300 FF other words''" "''more''"]
    by blast
qed

end
